theory Spec2Isabelle
  imports
    Complex_Main
    "HOL-Library.Word"
    "HOL-Library.Char_ord"
    "HOL-Library.List_Lexorder"
    "HOL-Library.Product_Lexorder"
begin

section \<open>Values\<close>

text \<open>
  The dashboard script \<^verbatim>\<open>dashboard_code.py\<close> works on pandas columns. An
  integer column is \<^verbatim>\<open>int64\<close>: sums wrap around modulo \<open>2 ^ 64\<close> and
  comparisons are signed. A \<^verbatim>\<open>float64\<close> column is modelled by the rational a
  cell denotes, or \<open>NaN\<close> for a missing cell; rounding is not modelled. Strings
  are byte strings compared lexicographically by code, which is Python's order
  on ASCII text.
\<close>

type_synonym int64 = "64 word"

datatype pyfloat = NaN | Fin rat

datatype py_error = ValueError | IndexError | TypeError

text \<open>
  An f-string is kept as its parts: literal text and the formatted values, so
  \<^verbatim>\<open>f"Total Crimes: {total_crimes}"\<close> is \<open>[Lit ''Total Crimes: '', FInt total_crimes]\<close>
  and \<^verbatim>\<open>{x:.2f}\<close> is \<open>FFloat2 x\<close>.
\<close>

datatype fpart = Lit string | FInt int64 | FFloat2 pyfloat | FStr string

type_synonym fstring = "fpart list"

section \<open>Data model\<close>

text \<open>One row of \<^verbatim>\<open>updated_crime_data_with_rate.csv\<close>, and the row after line 40
  has added the \<^verbatim>\<open>Season\<close> column.\<close>

record csv_record =
  Boroughs :: string
  Year :: int
  Month :: int
  MajorCrime :: string
  CrimeCount :: int64
  CrimeRatePer1000 :: pyfloat
  Population :: int64

record crime_record = csv_record +
  Season :: string

text \<open>One feature of the GeoJSON file; the geometry type is left open.\<close>

record 'g boundary =
  name :: string
  geometry :: 'g

text \<open>
  Rows of the grouped frames. \<open>key\<close> holds the group-key columns (a tuple when
  there are two); the value columns keep their pandas names, prefixed by the
  reduction that \<^verbatim>\<open>agg\<close> applied.
\<close>

record 'k sum_row =
  key :: 'k
  sum_CrimeCount :: int64

record 'k agg_row = "'k sum_row" +
  mean_CrimeRatePer1000 :: pyfloat

record 'k agg_pop_row = "'k agg_row" +
  mean_Population :: pyfloat

section \<open>Season classifier\<close>

definition get_season :: "int \<Rightarrow> string" where
  "get_season month =
     (if month \<in> set [12, 1, 2] then ''Winter''
      else if month \<in> set [3, 4, 5] then ''Spring''
      else if month \<in> set [6, 7, 8] then ''Summer''
      else ''Autumn'')"

text \<open>\<^verbatim>\<open>crime_data['Season'] = crime_data['Month'].apply(get_season)\<close> (line 40).\<close>

definition add_season :: "csv_record \<Rightarrow> crime_record" where
  "add_season r =
     \<lparr>Boroughs = Boroughs r, Year = Year r, Month = Month r, MajorCrime = MajorCrime r,
      CrimeCount = CrimeCount r, CrimeRatePer1000 = CrimeRatePer1000 r,
      Population = Population r, Season = get_season (Month r)\<rparr>"

section \<open>The pandas operations the script calls\<close>

text \<open>\<^verbatim>\<open>Series.unique()\<close>: the distinct values in order of first appearance.\<close>

definition unique :: "'a list \<Rightarrow> 'a list" where
  "unique xs = rev (remdups (rev xs))"

text \<open>
  \<^verbatim>\<open>df.groupby(keys)\<close>: one group per distinct key, the groups in ascending key
  order (\<^verbatim>\<open>sort=True\<close> is the default), each group holding its rows in table
  order.
\<close>

definition groupby :: "('r \<Rightarrow> 'k::linorder) \<Rightarrow> 'r list \<Rightarrow> ('k \<times> 'r list) list" where
  "groupby kf rows =
     map (\<lambda>k. (k, filter (\<lambda>r. kf r = k) rows)) (sort (remdups (map kf rows)))"

text \<open>\<^verbatim>\<open>Series.mean()\<close> and \<^verbatim>\<open>Series.max()\<close> skip missing cells
  (\<^verbatim>\<open>skipna=True\<close>) and give NaN when nothing is left.\<close>

fun finite_values :: "pyfloat list \<Rightarrow> rat list" where
  "finite_values [] = []"
| "finite_values (NaN # xs) = finite_values xs"
| "finite_values (Fin v # xs) = v # finite_values xs"

definition mean :: "pyfloat list \<Rightarrow> pyfloat" where
  "mean xs =
     (let vs = finite_values xs
      in if vs = [] then NaN else Fin (sum_list vs / of_nat (length vs)))"

definition series_max :: "pyfloat list \<Rightarrow> pyfloat" where
  "series_max xs = (case finite_values xs of [] \<Rightarrow> NaN | v # vs \<Rightarrow> Fin (fold max vs v))"

text \<open>The mean of an \<^verbatim>\<open>int64\<close> column is taken over its signed values.\<close>

definition int64_to_float :: "int64 \<Rightarrow> pyfloat" where
  "int64_to_float n = Fin (of_int (sint n))"

text \<open>
  \<^verbatim>\<open>Series.idxmax()\<close> on an \<^verbatim>\<open>int64\<close> series, given as its (label, value)
  pairs in index order: the label of the first occurrence of the greatest value;
  on an empty series numpy's \<^verbatim>\<open>argmax\<close> raises \<^verbatim>\<open>ValueError\<close>.
\<close>

fun argmax_from :: "'k \<Rightarrow> int64 \<Rightarrow> ('k \<times> int64) list \<Rightarrow> 'k" where
  "argmax_from k v [] = k"
| "argmax_from k v ((k', v') # rest) =
     (if sint v < sint v' then argmax_from k' v' rest else argmax_from k v rest)"

definition idxmax :: "('k \<times> int64) list \<Rightarrow> py_error + 'k" where
  "idxmax s = (case s of [] \<Rightarrow> Inl ValueError | (k, v) # rest \<Rightarrow> Inr (argmax_from k v rest))"

text \<open>
  \<^verbatim>\<open>groupby(keys, as_index=False).agg({...})\<close> with the three reduction
  dictionaries of the script: \<^verbatim>\<open>{'CrimeCount': 'sum'}\<close>,
  \<^verbatim>\<open>{'CrimeCount': 'sum', 'CrimeRatePer1000': 'mean'}\<close> and the one that also
  has \<^verbatim>\<open>'Population': 'mean'\<close>. The column readers are arguments because
  the seasonal callback aggregates an aggregate.
\<close>

definition agg_sum :: "('r \<Rightarrow> 'k::linorder) \<Rightarrow> ('r \<Rightarrow> int64) \<Rightarrow> 'r list \<Rightarrow> 'k sum_row list" where
  "agg_sum kf cf rows =
     map (\<lambda>(k, g). \<lparr>key = k, sum_CrimeCount = sum_list (map cf g)\<rparr>) (groupby kf rows)"

definition agg_sum_mean ::
  "('r \<Rightarrow> 'k::linorder) \<Rightarrow> ('r \<Rightarrow> int64) \<Rightarrow> ('r \<Rightarrow> pyfloat) \<Rightarrow> 'r list \<Rightarrow> 'k agg_row list" where
  "agg_sum_mean kf cf rf rows =
     map (\<lambda>(k, g). \<lparr>key = k, sum_CrimeCount = sum_list (map cf g),
                     mean_CrimeRatePer1000 = mean (map rf g)\<rparr>) (groupby kf rows)"

definition agg_pop_sum_mean ::
  "('r \<Rightarrow> 'k::linorder) \<Rightarrow> ('r \<Rightarrow> int64) \<Rightarrow> ('r \<Rightarrow> int64) \<Rightarrow> ('r \<Rightarrow> pyfloat) \<Rightarrow> 'r list
     \<Rightarrow> 'k agg_pop_row list" where
  "agg_pop_sum_mean kf pf cf rf rows =
     map (\<lambda>(k, g). \<lparr>key = k, sum_CrimeCount = sum_list (map cf g),
                     mean_CrimeRatePer1000 = mean (map rf g),
                     mean_Population = mean (map (\<lambda>r. int64_to_float (pf r)) g)\<rparr>)
       (groupby kf rows)"

text \<open>
  \<^verbatim>\<open>str.strip()\<close>, \<^verbatim>\<open>str.lower()\<close> and \<^verbatim>\<open>str.title()\<close> on ASCII text. The
  whitespace of \<^verbatim>\<open>strip\<close> is tab, line feed, vertical tab, form feed, carriage
  return, the four separators 0x1C..0x1F and the space.
\<close>

definition whitespace :: "char list" where
  "whitespace = [CHR 0x09, CHR 0x0A, CHR 0x0B, CHR 0x0C, CHR 0x0D,
                 CHR 0x1C, CHR 0x1D, CHR 0x1E, CHR 0x1F, CHR '' '']"

definition ascii_uppercase :: string where
  "ascii_uppercase = ''ABCDEFGHIJKLMNOPQRSTUVWXYZ''"

definition ascii_lowercase :: string where
  "ascii_lowercase = ''abcdefghijklmnopqrstuvwxyz''"

definition str_strip :: "string \<Rightarrow> string" where
  "str_strip s =
     rev (dropWhile (\<lambda>c. c \<in> set whitespace) (rev (dropWhile (\<lambda>c. c \<in> set whitespace) s)))"

definition lower_char :: "char \<Rightarrow> char" where
  "lower_char c = (case map_of (zip ascii_uppercase ascii_lowercase) c of Some d \<Rightarrow> d | None \<Rightarrow> c)"

definition upper_char :: "char \<Rightarrow> char" where
  "upper_char c = (case map_of (zip ascii_lowercase ascii_uppercase) c of Some d \<Rightarrow> d | None \<Rightarrow> c)"

definition str_lower :: "string \<Rightarrow> string" where
  "str_lower s = map lower_char s"

text \<open>\<^verbatim>\<open>title\<close> upper-cases a letter that follows a non-letter and lower-cases
  one that follows a letter; the flag says whether the previous character was a
  letter.\<close>

fun title_from :: "bool \<Rightarrow> string \<Rightarrow> string" where
  "title_from prev [] = []"
| "title_from prev (c # cs) =
     (if c \<in> set ascii_lowercase then (if prev then c else upper_char c) # title_from True cs
      else if c \<in> set ascii_uppercase then (if prev then lower_char c else c) # title_from True cs
      else c # title_from False cs)"

definition str_title :: "string \<Rightarrow> string" where
  "str_title s = title_from False s"

text \<open>
  \<^verbatim>\<open>left.merge(right, left_on='name', right_on='Boroughs')\<close>: the inner join,
  in the order of the left rows; a joined row is the pair of its two rows.
\<close>

definition merge :: "'g boundary list \<Rightarrow> string agg_pop_row list
    \<Rightarrow> ('g boundary \<times> string agg_pop_row) list" where
  "merge left right =
     concat (map (\<lambda>l. map (\<lambda>r. (l, r)) (filter (\<lambda>r. key r = name l) right)) left)"

section \<open>Charts\<close>

text \<open>
  A plotly figure is kept as the call that built it: the chart kind, the data
  frame, the column bindings, title and labels, and the traces added later.
  Styling arguments (template, colour scale, map centre, fonts) are left out. A
  \<^verbatim>\<open>Scattermapbox\<close> text trace stands at the centroid of its geometry, which
  stays symbolic, and shows its text.
\<close>

type_synonym 'g merged_row = "'g boundary \<times> string agg_pop_row"

datatype 'g table =
    ByBorough "string agg_row list"
  | ByBoroughSeason "(string \<times> string) agg_row list"
  | BySeason "string agg_row list"
  | ByYearCrime "(int \<times> string) agg_row list"
  | BoroughSums "string sum_row list"
  | Merged "'g merged_row list"

datatype 'g trace = Scattermapbox 'g string

record 'g figure =
  chart :: string
  data_frame :: "'g table"
  geojson :: "'g merged_row list"
  encoding :: "(string \<times> string) list"
  title :: fstring
  labels :: "(string \<times> string) list"
  traces :: "'g trace list"

section \<open>Start-up: lines 27 to 112\<close>

text \<open>
  The module's globals after the top-level code has run, as a function of the
  rows of the two input files. Lines 71 and 72 overwrite the name columns of
  \<^verbatim>\<open>geo_df\<close> and \<^verbatim>\<open>borough_level_data\<close> in place, so the globals hold the
  normalized names from then on; \<^verbatim>\<open>crime_data\<close> keeps the names of the file.
\<close>

record 'g globals =
  crime_data :: "crime_record list"
  borough_data :: "string agg_row list"
  seasonal_data :: "(string \<times> string) agg_row list"
  yearly_data :: "(int \<times> string) agg_row list"
  geo_df :: "'g boundary list"
  borough_level_data :: "string agg_pop_row list"
  merged_geo_df :: "'g merged_row list"
  geojson_data :: "'g merged_row list"
  fig :: "'g figure"

definition startup :: "csv_record list \<Rightarrow> 'g boundary list \<Rightarrow> 'g globals" where
  "startup csv geo =
     (let crime_data' = map add_season csv;
          borough_data' = agg_sum_mean Boroughs CrimeCount CrimeRatePer1000 crime_data';
          seasonal_data' =
            agg_sum_mean (\<lambda>r. (Boroughs r, Season r)) CrimeCount CrimeRatePer1000 crime_data';
          yearly_data' =
            agg_sum_mean (\<lambda>r. (Year r, MajorCrime r)) CrimeCount CrimeRatePer1000 crime_data';
          borough_level_data' =
            agg_pop_sum_mean Boroughs Population CrimeCount CrimeRatePer1000 crime_data';
          geo_df' = map (\<lambda>b. b\<lparr>name := str_lower (str_strip (name b))\<rparr>) geo;
          borough_level_data'' =
            map (\<lambda>a. a\<lparr>key := str_lower (str_strip (key a))\<rparr>) borough_level_data';
          merged_geo_df' = merge geo_df' borough_level_data'';
          geojson_data' = merged_geo_df';
          fig' =
            \<lparr>chart = ''choropleth_mapbox'', data_frame = Merged merged_geo_df',
             geojson = geojson_data',
             encoding = [(''locations'', ''name''), (''featureidkey'', ''properties.name''),
                         (''color'', ''CrimeRatePer1000'')],
             title = [Lit ''Crime Rates Across London Boroughs''],
             labels = [],
             traces = map (\<lambda>(b, a). Scattermapbox (geometry b) (str_title (name b)))
                        merged_geo_df'\<rparr>
      in \<lparr>crime_data = crime_data', borough_data = borough_data',
          seasonal_data = seasonal_data', yearly_data = yearly_data', geo_df = geo_df',
          borough_level_data = borough_level_data'', merged_geo_df = merged_geo_df',
          geojson_data = geojson_data', fig = fig'\<rparr>)"

section \<open>Page layout: lines 118 to 245\<close>

datatype dropdown_value = Single string | Multi "string list"

text \<open>
  The components of the page. A \<open>Dropdown\<close> has its id, its options as (label,
  value) pairs, its initial value and the \<^verbatim>\<open>multi\<close> flag; a \<open>Graph\<close> has its id
  and, when the layout gives one, its figure; a \<open>DataTable\<close> has its id, its
  column ids and its page size.
\<close>

datatype 'g component =
    H1 string
  | H3 string
  | Label string
  | Div "'g component list"
  | DivId string
  | Tabs "'g component list"
  | Tab string "'g component list"
  | Graph string "'g figure option"
  | Dropdown string "(string \<times> string) list" dropdown_value bool
  | DataTable string "string list" nat

fun component_ids :: "'g component \<Rightarrow> string list" where
  "component_ids (H1 t) = []"
| "component_ids (H3 t) = []"
| "component_ids (Label t) = []"
| "component_ids (Div cs) = concat (map component_ids cs)"
| "component_ids (DivId i) = [i]"
| "component_ids (Tabs cs) = concat (map component_ids cs)"
| "component_ids (Tab l cs) = concat (map component_ids cs)"
| "component_ids (Graph i f) = [i]"
| "component_ids (Dropdown i os v m) = [i]"
| "component_ids (DataTable i cols n) = [i]"

text \<open>The tab with a given label, searched through the whole page.\<close>

fun find_tab :: "string \<Rightarrow> 'g component \<Rightarrow> 'g component list" where
  "find_tab l (Div cs) = concat (map (find_tab l) cs)"
| "find_tab l (Tabs cs) = concat (map (find_tab l) cs)"
| "find_tab l (Tab l' cs) = (if l' = l then [Tab l' cs] else concat (map (find_tab l) cs))"
| "find_tab l c = []"

text \<open>
  \<^verbatim>\<open>app.layout\<close>. The first \<^verbatim>\<open>crime_data['MajorCrime'].unique()[0]\<close> raises
  \<^verbatim>\<open>IndexError\<close> on a table with no rows.
\<close>

definition app_layout :: "'g globals \<Rightarrow> py_error + 'g component" where
  "app_layout g =
     (let boroughs = unique (map Boroughs (crime_data g));
          crimes = unique (map MajorCrime (crime_data g))
      in case crimes of
           [] \<Rightarrow> Inl IndexError
         | crime0 # _ \<Rightarrow> Inr (Div [
             H1 ''London Crime Dashboard'',
             Tabs [
               Tab ''Borough Analysis'' [
                 Div [
                   H3 ''Crime by Borough'',
                   Graph ''borough-crime-bar-chart'' (Some
                     \<lparr>chart = ''bar'', data_frame = ByBorough (borough_data g), geojson = [],
                      encoding = [(''x'', ''Boroughs''), (''y'', ''CrimeCount''),
                                  (''color'', ''CrimeRatePer1000'')],
                      title = [Lit ''Crime Counts and Rates by Borough''],
                      labels = [(''CrimeCount'', ''Crime Count''),
                                (''CrimeRatePer1000'', ''Crime Rate per 1,000'')],
                      traces = []\<rparr>)],
                 Div [
                   H3 ''Crime Distribution Across Boroughs (Pie Chart)'',
                   Graph ''borough-pie-chart'' (Some
                     \<lparr>chart = ''pie'', data_frame = ByBorough (borough_data g), geojson = [],
                      encoding = [(''names'', ''Boroughs''), (''values'', ''CrimeCount'')],
                      title = [Lit ''Crime Distribution by Borough''],
                      labels = [(''Boroughs'', ''Borough''), (''CrimeCount'', ''Crime Count'')],
                      traces = []\<rparr>)]],
               Tab ''Seasonal Crime Patterns'' [
                 Div [
                   H3 ''Seasonal Crime Patterns Across Boroughs'',
                   Dropdown ''borough-dropdown''
                     ((''All Boroughs'', ''All'') # map (\<lambda>b. (b, b)) boroughs)
                     (Single ''All'') False,
                   Graph ''seasonal-crime-pattern-graph'' None]],
               Tab ''Yearly Trends'' [
                 Div [
                   H3 ''Yearly Crime Trends'',
                   Graph ''yearly-trends-graph'' (Some
                     \<lparr>chart = ''line'', data_frame = ByYearCrime (yearly_data g), geojson = [],
                      encoding = [(''x'', ''Year''), (''y'', ''CrimeRatePer1000''),
                                  (''color'', ''MajorCrime'')],
                      title = [Lit ''Yearly Trends of Crime Rates by Major Crime Type''],
                      labels = [(''CrimeRatePer1000'', ''Crime Rate per 1,000''),
                                (''MajorCrime'', ''Major Crime'')],
                      traces = []\<rparr>)]],
               Tab ''Crime Type Analysis'' [
                 Div [
                   H3 ''Compare Crime Types Across Boroughs'',
                   Div [
                     Label ''Select Crime Type:'',
                     Dropdown ''crime-type-dropdown'' (map (\<lambda>c. (c, c)) crimes)
                       (Single crime0) False],
                   Div [
                     Label ''Select Boroughs:'',
                     Dropdown ''borough-comparison-dropdown'' (map (\<lambda>b. (b, b)) boroughs)
                       (Multi (take 3 boroughs)) True],
                   Div [Graph ''borough-comparison-bar-chart'' None]]],
               Tab ''Statistics and Table'' [
                 Div [
                   H3 ''Interactive Crime Statistics'',
                   Label ''Select Crime Type:'',
                   Dropdown ''crime-type-dropdown-stats'' (map (\<lambda>c. (c, c)) crimes)
                     (Single crime0) False,
                   DivId ''statistics-content'',
                   H3 ''Crime Data Table'',
                   DataTable ''crime-data-table''
                     [''Boroughs'', ''CrimeCount'', ''CrimeRatePer1000''] 10]],
               Tab ''Geospatial Map'' [
                 Div [
                   H3 ''Geospatial Map of Borough Crime Data'',
                   Graph ''crime-choropleth-map'' (Some (fig g))]]]]))"

section \<open>Callbacks: lines 248 to 375\<close>

text \<open>
  Each callback reads the globals and returns its outputs together with the
  globals as it leaves them. A callback that raises returns the error in place
  of its outputs.

  \<^verbatim>\<open>crime_data[crime_data['MajorCrime'] == selected_crime_type]\<close>, the row
  selection of lines 304 and 335:
\<close>

definition select_crime_type :: "crime_record list \<Rightarrow> string \<Rightarrow> crime_record list" where
  "select_crime_type rows selected_crime_type =
     filter (\<lambda>r. MajorCrime r = selected_crime_type) rows"

definition update_seasonal_graph :: "'g globals \<Rightarrow> string \<Rightarrow> 'g figure \<times> 'g globals" where
  "update_seasonal_graph g selected_borough =
     (let (filtered_data, title') =
            (if selected_borough = ''All''
             then (BySeason (agg_sum_mean (\<lambda>r. snd (key r)) sum_CrimeCount
                               mean_CrimeRatePer1000 (seasonal_data g)),
                   [Lit ''Seasonal Crime Patterns Across All Boroughs''])
             else (ByBoroughSeason
                     (filter (\<lambda>r. fst (key r) = selected_borough) (seasonal_data g)),
                   [Lit ''Seasonal Crime Patterns in '', FStr selected_borough]))
      in (\<lparr>chart = ''bar'', data_frame = filtered_data, geojson = [],
           encoding = [(''x'', ''Season''), (''y'', ''CrimeCount''), (''color'', ''Season'')],
           title = title', labels = [(''CrimeCount'', ''Crime Count'')], traces = []\<rparr>, g))"

definition update_borough_comparison ::
  "'g globals \<Rightarrow> string \<Rightarrow> string list \<Rightarrow> 'g figure \<times> 'g globals" where
  "update_borough_comparison g selected_crime_type selected_boroughs =
     (let filtered_data =
            agg_sum Boroughs CrimeCount
              (filter (\<lambda>r. MajorCrime r = selected_crime_type \<and>
                            Boroughs r \<in> set selected_boroughs) (crime_data g))
      in (\<lparr>chart = ''bar'', data_frame = BoroughSums filtered_data, geojson = [],
           encoding = [(''x'', ''Boroughs''), (''y'', ''CrimeCount'')],
           title = [Lit ''Crime Count for '', Lit [CHR 0x27], FStr selected_crime_type,
                    Lit [CHR 0x27], Lit '' Across Selected Boroughs''],
           labels = [(''CrimeCount'', ''Crime Count''), (''Boroughs'', ''Borough'')],
           traces = []\<rparr>, g))"

definition update_statistics_and_table ::
  "'g globals \<Rightarrow> string \<Rightarrow> (py_error + fstring list \<times> string agg_row list) \<times> 'g globals" where
  "update_statistics_and_table g selected_crime_type =
     (let filtered_data = select_crime_type (crime_data g) selected_crime_type;
          total_crimes = sum_list (map CrimeCount filtered_data);
          average_crime_rate = mean (map CrimeRatePer1000 filtered_data)
      in case idxmax (map (\<lambda>(k, rows). (k, sum_list (map CrimeCount rows)))
                        (groupby Boroughs filtered_data)) of
           Inl e \<Rightarrow> (Inl e, g)
         | Inr most_affected_borough \<Rightarrow>
             (let highest_crime_rate =
                    series_max (map (\<lambda>(k, rows). mean (map CrimeRatePer1000 rows))
                                  (groupby Boroughs filtered_data));
                  statistics =
                    [[Lit ''Total Crimes: '', FInt total_crimes],
                     [Lit ''Average Crime Rate (per 1000): '', FFloat2 average_crime_rate],
                     [Lit ''Most Affected Borough: '', FStr most_affected_borough],
                     [Lit ''Highest Crime Rate (per 1000): '', FFloat2 highest_crime_rate]];
                  table_data =
                    agg_sum_mean Boroughs CrimeCount CrimeRatePer1000 filtered_data
              in (Inr (statistics, table_data), g)))"

definition update_geospatial_map :: "'g globals \<Rightarrow> string \<Rightarrow> 'g figure \<times> 'g globals" where
  "update_geospatial_map g selected_crime_type =
     (let filtered_data = select_crime_type (crime_data g) selected_crime_type;
          borough_level_filtered =
            agg_pop_sum_mean Boroughs Population CrimeCount CrimeRatePer1000 filtered_data;
          merged_filtered = merge (geo_df g) borough_level_filtered
      in (\<lparr>chart = ''choropleth_mapbox'', data_frame = Merged merged_filtered,
           geojson = geojson_data g,
           encoding = [(''locations'', ''name''), (''featureidkey'', ''properties.name''),
                       (''color'', ''CrimeRatePer1000'')],
           title = [Lit ''Crime Rates Across London Boroughs: '', FStr selected_crime_type],
           labels = [],
           traces = map (\<lambda>(b, a). Scattermapbox (geometry b) (str_title (name b)))
                      merged_filtered\<rparr>, g))"

section \<open>The callback registry and Dash's dispatch\<close>

text \<open>
  A property of the page is a (component id, property name) pair. The decorator
  \<^verbatim>\<open>@app.callback(Output ..., Input ...)\<close> registers a function with the
  properties it writes and the properties whose change triggers it. The
  registered function receives the current values of its inputs; a value of
  another shape than the control sends is a \<^verbatim>\<open>TypeError\<close> here.
\<close>

type_synonym prop_id = "string \<times> string"

datatype 'g pvalue =
    VStr string
  | VStrs "string list"
  | VFigure "'g figure"
  | VChildren "fstring list"
  | VData "string agg_row list"

record 'g callback =
  Outputs :: "prop_id list"
  Inputs :: "prop_id list"
  func :: "'g globals \<Rightarrow> 'g pvalue list \<Rightarrow> (py_error + 'g pvalue list) \<times> 'g globals"

definition registered_seasonal_graph :: "'g callback" where
  "registered_seasonal_graph =
     \<lparr>Outputs = [(''seasonal-crime-pattern-graph'', ''figure'')],
      Inputs = [(''borough-dropdown'', ''value'')],
      func = (\<lambda>g args. case args of
                [VStr selected_borough] \<Rightarrow>
                  (case update_seasonal_graph g selected_borough of
                     (f, g') \<Rightarrow> (Inr [VFigure f], g'))
              | _ \<Rightarrow> (Inl TypeError, g))\<rparr>"

definition registered_borough_comparison :: "'g callback" where
  "registered_borough_comparison =
     \<lparr>Outputs = [(''borough-comparison-bar-chart'', ''figure'')],
      Inputs = [(''crime-type-dropdown'', ''value''),
                (''borough-comparison-dropdown'', ''value'')],
      func = (\<lambda>g args. case args of
                [VStr selected_crime_type, VStrs selected_boroughs] \<Rightarrow>
                  (case update_borough_comparison g selected_crime_type selected_boroughs of
                     (f, g') \<Rightarrow> (Inr [VFigure f], g'))
              | _ \<Rightarrow> (Inl TypeError, g))\<rparr>"

definition registered_statistics_and_table :: "'g callback" where
  "registered_statistics_and_table =
     \<lparr>Outputs = [(''statistics-content'', ''children''), (''crime-data-table'', ''data'')],
      Inputs = [(''crime-type-dropdown-stats'', ''value'')],
      func = (\<lambda>g args. case args of
                [VStr selected_crime_type] \<Rightarrow>
                  (case update_statistics_and_table g selected_crime_type of
                     (Inl e, g') \<Rightarrow> (Inl e, g')
                   | (Inr (statistics, table_data), g') \<Rightarrow>
                       (Inr [VChildren statistics, VData table_data], g'))
              | _ \<Rightarrow> (Inl TypeError, g))\<rparr>"

definition registered_geospatial_map :: "'g callback" where
  "registered_geospatial_map =
     \<lparr>Outputs = [(''crime-choropleth-map'', ''figure'')],
      Inputs = [(''crime-type-dropdown-map'', ''value'')],
      func = (\<lambda>g args. case args of
                [VStr selected_crime_type] \<Rightarrow>
                  (case update_geospatial_map g selected_crime_type of
                     (f, g') \<Rightarrow> (Inr [VFigure f], g'))
              | _ \<Rightarrow> (Inl TypeError, g))\<rparr>"

definition callbacks :: "'g callback list" where
  "callbacks = [registered_seasonal_graph, registered_borough_comparison,
                registered_statistics_and_table, registered_geospatial_map]"

text \<open>
  The running application: the server's globals and the property values the
  page shows. When a property changes, Dash stores the new value and runs every
  registered callback that lists the property among its inputs, with the current
  values of all its inputs; the returned values replace the callback's output
  properties. A callback that raises, or one of whose inputs has no value,
  leaves the page as it is.
\<close>

record 'g app =
  server :: "'g globals"
  view :: "prop_id \<Rightarrow> 'g pvalue option"

fun write_props :: "(prop_id \<times> 'g pvalue) list \<Rightarrow> (prop_id \<Rightarrow> 'g pvalue option) \<Rightarrow> (prop_id \<Rightarrow> 'g pvalue option)" where
  "write_props [] m = m"
| "write_props ((p, v) # pvs) m = write_props pvs (m(p \<mapsto> v))"

definition run_callback :: "'g callback \<Rightarrow> 'g app \<Rightarrow> 'g app" where
  "run_callback cb s =
     (case those (map (view s) (Inputs cb)) of
        None \<Rightarrow> s
      | Some args \<Rightarrow>
          (case func cb (server s) args of
             (Inl e, g') \<Rightarrow> s\<lparr>server := g'\<rparr>
           | (Inr outs, g') \<Rightarrow>
               s\<lparr>server := g', view := write_props (zip (Outputs cb) outs) (view s)\<rparr>))"

definition triggered :: "prop_id \<Rightarrow> 'g callback list" where
  "triggered p = filter (\<lambda>cb. p \<in> set (Inputs cb)) callbacks"

definition fire :: "prop_id \<Rightarrow> 'g pvalue \<Rightarrow> 'g app \<Rightarrow> 'g app" where
  "fire p v s = fold run_callback (triggered p) (s\<lparr>view := (view s)(p \<mapsto> v)\<rparr>)"

definition run_events :: "(prop_id \<times> 'g pvalue) list \<Rightarrow> 'g app \<Rightarrow> 'g app" where
  "run_events es s = fold (\<lambda>(p, v). fire p v) es s"

section \<open>Example tables\<close>

text \<open>Small inputs on which the theorems below are run.\<close>

definition camden_january :: csv_record where
  "camden_january =
     \<lparr>Boroughs = ''Camden'', Year = 2020, Month = 1, MajorCrime = ''Burglary'',
      CrimeCount = 10, CrimeRatePer1000 = Fin 2, Population = 1000\<rparr>"

definition mean_of_means_table :: "csv_record list" where
  "mean_of_means_table =
     [\<lparr>Boroughs = ''Camden'', Year = 2020, Month = 1, MajorCrime = ''Burglary'',
       CrimeCount = 10, CrimeRatePer1000 = Fin 1, Population = 1000\<rparr>,
      \<lparr>Boroughs = ''Camden'', Year = 2020, Month = 2, MajorCrime = ''Burglary'',
       CrimeCount = 20, CrimeRatePer1000 = Fin 3, Population = 1000\<rparr>,
      \<lparr>Boroughs = ''Brent'', Year = 2020, Month = 1, MajorCrime = ''Burglary'',
       CrimeCount = 5, CrimeRatePer1000 = Fin 8, Population = 2000\<rparr>]"

definition stats_selection :: "unit app" where
  "stats_selection =
     fire (''crime-type-dropdown-stats'', ''value'') (VStr ''Burglary'')
       \<lparr>server = startup [camden_january] [], view = Map.empty\<rparr>"

definition camden_boundaries :: "unit boundary list" where
  "camden_boundaries =
     [\<lparr>name = ''Camden'', geometry = ()\<rparr>, \<lparr>name = '' camden '', geometry = ()\<rparr>]"

definition lambeth_boundary :: "unit boundary list" where
  "lambeth_boundary = [\<lparr>name = ''Lambeth'', geometry = ()\<rparr>]"

definition southwark_january :: csv_record where
  "southwark_january =
     \<lparr>Boroughs = ''southwark'', Year = 2020, Month = 1, MajorCrime = ''Burglary'',
      CrimeCount = 7, CrimeRatePer1000 = Fin 1, Population = 3000\<rparr>"

definition tie_table :: "csv_record list" where
  "tie_table =
     [\<lparr>Boroughs = ''Westminster'', Year = 2020, Month = 1, MajorCrime = ''Burglary'',
       CrimeCount = 5, CrimeRatePer1000 = Fin 1, Population = 1000\<rparr>,
      \<lparr>Boroughs = ''Camden'', Year = 2020, Month = 1, MajorCrime = ''Burglary'',
       CrimeCount = 5, CrimeRatePer1000 = Fin 3, Population = 1000\<rparr>]"

section \<open>Season classifier: properties\<close>

text \<open>
  C1. \<open>get_season\<close> is total on the integers: months 12, 1, 2 give Winter,
  3, 4, 5 give Spring, 6, 7, 8 give Summer, 9, 10, 11 give Autumn, the result is
  always one of these four (pairwise different) labels, and every month outside
  1..12 gives Autumn.
\<close>

theorem get_season_total:
  "(m \<in> {12, 1, 2} \<longrightarrow> get_season m = ''Winter'') \<and>
   (m \<in> {3, 4, 5} \<longrightarrow> get_season m = ''Spring'') \<and>
   (m \<in> {6, 7, 8} \<longrightarrow> get_season m = ''Summer'') \<and>
   (m \<in> {9, 10, 11} \<longrightarrow> get_season m = ''Autumn'') \<and>
   (m < 1 \<or> 12 < m \<longrightarrow> get_season m = ''Autumn'') \<and>
   get_season m \<in> {''Winter'', ''Spring'', ''Summer'', ''Autumn''} \<and>
   distinct [''Winter'', ''Spring'', ''Summer'', ''Autumn'']"
  by (auto simp: get_season_def)

theorem get_season_total_witness:
  "get_season 12 = ''Winter'' \<and> get_season 1 = ''Winter'' \<and> get_season 2 = ''Winter'' \<and>
   get_season 3 = ''Spring'' \<and> get_season 4 = ''Spring'' \<and> get_season 5 = ''Spring'' \<and>
   get_season 6 = ''Summer'' \<and> get_season 7 = ''Summer'' \<and> get_season 8 = ''Summer'' \<and>
   get_season 9 = ''Autumn'' \<and> get_season 10 = ''Autumn'' \<and> get_season 11 = ''Autumn'' \<and>
   get_season 0 = ''Autumn'' \<and> get_season 13 = ''Autumn'' \<and> get_season (- 5) = ''Autumn''"
  using get_season_total [of 12] get_season_total [of 1] get_season_total [of 2]
    get_season_total [of 3] get_season_total [of 4] get_season_total [of 5]
    get_season_total [of 6] get_season_total [of 7] get_season_total [of 8]
    get_season_total [of 9] get_season_total [of 10] get_season_total [of 11]
    get_season_total [of 0] get_season_total [of 13] get_season_total [of "- 5"]
  by simp

section \<open>Grouping: one group per key, and sums are preserved\<close>

lemma groupby_keys: "map fst (groupby kf rows) = sort (remdups (map kf rows))"
  by (simp add: groupby_def comp_def)


lemma groupby_keys_sorted: "sorted (map fst (groupby kf rows))"
  by (simp add: groupby_keys)



lemma groupby_group:
  "(k, g) \<in> set (groupby kf rows) \<Longrightarrow> g = filter (\<lambda>r. kf r = k) rows \<and> k \<in> kf ` set rows"
  by (auto simp: groupby_def)

lemma groupby_group_nonempty: "(k, g) \<in> set (groupby kf rows) \<Longrightarrow> g \<noteq> []"
  by (auto simp: groupby_def filter_empty_conv)










section \<open>The start-up globals, field by field\<close>

lemma startup_crime_data: "crime_data (startup csv geo) = map add_season csv"
  by (simp add: startup_def Let_def)

lemma startup_borough_data:
  "borough_data (startup csv geo) =
     agg_sum_mean Boroughs CrimeCount CrimeRatePer1000 (map add_season csv)"
  by (simp add: startup_def Let_def)

lemma startup_seasonal_data:
  "seasonal_data (startup csv geo) =
     agg_sum_mean (\<lambda>r. (Boroughs r, Season r)) CrimeCount CrimeRatePer1000 (map add_season csv)"
  by (simp add: startup_def Let_def)


lemma startup_borough_level_data:
  "borough_level_data (startup csv geo) =
     map (\<lambda>a. a\<lparr>key := str_lower (str_strip (key a))\<rparr>)
       (agg_pop_sum_mean Boroughs Population CrimeCount CrimeRatePer1000 (map add_season csv))"
  by (simp add: startup_def Let_def)

lemma startup_geo_df:
  "geo_df (startup csv geo) = map (\<lambda>b. b\<lparr>name := str_lower (str_strip (name b))\<rparr>) geo"
  by (simp add: startup_def Let_def)

lemma startup_merged_geo_df:
  "merged_geo_df (startup csv geo) = merge (geo_df (startup csv geo)) (borough_level_data (startup csv geo))"
  by (simp add: startup_def Let_def)

section \<open>Aggregation: rows and totals\<close>









section \<open>Selecting a crime type\<close>

text \<open>
  C3. Selecting the rows of a crime type that occurs in the table gives a
  non-empty result, every row of which has that crime type (and is a row of the
  table); selecting a crime type that does not occur gives no rows.
\<close>

theorem select_crime_type_present_absent:
  "(c \<in> MajorCrime ` set rows \<longrightarrow>
      select_crime_type rows c \<noteq> [] \<and>
      (\<forall>r \<in> set (select_crime_type rows c). MajorCrime r = c \<and> r \<in> set rows)) \<and>
   (c \<notin> MajorCrime ` set rows \<longrightarrow> select_crime_type rows c = [])"
  by (auto simp: select_crime_type_def filter_empty_conv)

theorem select_crime_type_present_absent_witness:
  "''Burglary'' \<in> MajorCrime ` set [add_season camden_january] \<and>
   select_crime_type [add_season camden_january] ''Burglary'' \<noteq> [] \<and>
   MajorCrime ` set (select_crime_type [add_season camden_january] ''Burglary'') = {''Burglary''} \<and>
   ''Robbery'' \<notin> MajorCrime ` set [add_season camden_january] \<and>
   select_crime_type [add_season camden_january] ''Robbery'' = []"
proof -
  let ?rows = "[add_season camden_january]"
  have present: "''Burglary'' \<in> MajorCrime ` set ?rows"
    by (simp add: add_season_def camden_january_def)
  have absent: "''Robbery'' \<notin> MajorCrime ` set ?rows"
    by (simp add: add_season_def camden_january_def)
  from present select_crime_type_present_absent [of "''Burglary''" ?rows]
  have nonempty: "select_crime_type ?rows ''Burglary'' \<noteq> []"
    and all: "\<forall>r \<in> set (select_crime_type ?rows ''Burglary''). MajorCrime r = ''Burglary''"
    by blast+
  from nonempty all
  have image: "MajorCrime ` set (select_crime_type ?rows ''Burglary'') = {''Burglary''}"
    by (cases "select_crime_type ?rows ''Burglary''") auto
  from absent select_crime_type_present_absent [of "''Robbery''" ?rows]
  have none: "select_crime_type ?rows ''Robbery'' = []"
    by blast
  from present nonempty image absent none show ?thesis
    by blast
qed

section \<open>The two-record example\<close>

text \<open>
  C7. For the two records (Camden, month 1, Burglary, count 10, rate 2.0) and
  (Camden, month 7, Burglary, count 20, rate 4.0), whatever their year and
  population, the borough aggregate is the single row (Camden, 30, 3.0) and the
  seasonal aggregate is exactly the rows (Camden, Winter, 10, 2.0) and
  (Camden, Summer, 20, 4.0); pandas lists them in key order, Summer first.
\<close>

theorem two_record_example:
  fixes geo :: "'g boundary list" and y1 y2 :: int and p1 p2 :: int64
  defines "g \<equiv> startup
     [\<lparr>Boroughs = ''Camden'', Year = y1, Month = 1, MajorCrime = ''Burglary'',
       CrimeCount = 10, CrimeRatePer1000 = Fin 2, Population = p1\<rparr>,
      \<lparr>Boroughs = ''Camden'', Year = y2, Month = 7, MajorCrime = ''Burglary'',
       CrimeCount = 20, CrimeRatePer1000 = Fin 4, Population = p2\<rparr>] geo"
  shows
  "borough_data g =
     [\<lparr>key = ''Camden'', sum_CrimeCount = 30, mean_CrimeRatePer1000 = Fin 3\<rparr>] \<and>
   seasonal_data g =
     [\<lparr>key = (''Camden'', ''Summer''), sum_CrimeCount = 20, mean_CrimeRatePer1000 = Fin 4\<rparr>,
      \<lparr>key = (''Camden'', ''Winter''), sum_CrimeCount = 10, mean_CrimeRatePer1000 = Fin 2\<rparr>] \<and>
   set (seasonal_data g) =
     {\<lparr>key = (''Camden'', ''Winter''), sum_CrimeCount = 10, mean_CrimeRatePer1000 = Fin 2\<rparr>,
      \<lparr>key = (''Camden'', ''Summer''), sum_CrimeCount = 20, mean_CrimeRatePer1000 = Fin 4\<rparr>}"
proof -
  have b: "borough_data g =
     [\<lparr>key = ''Camden'', sum_CrimeCount = 30, mean_CrimeRatePer1000 = Fin 3\<rparr>]"
    unfolding g_def startup_borough_data
    by (simp add: agg_sum_mean_def groupby_def add_season_def mean_def)
  have s: "seasonal_data g =
     [\<lparr>key = (''Camden'', ''Summer''), sum_CrimeCount = 20, mean_CrimeRatePer1000 = Fin 4\<rparr>,
      \<lparr>key = (''Camden'', ''Winter''), sum_CrimeCount = 10, mean_CrimeRatePer1000 = Fin 2\<rparr>]"
    unfolding g_def startup_seasonal_data
    by (simp add: agg_sum_mean_def groupby_def add_season_def mean_def get_season_def)
  have "{\<lparr>key = (''Camden'', ''Winter''), sum_CrimeCount = 10, mean_CrimeRatePer1000 = Fin 2\<rparr>,
      \<lparr>key = (''Camden'', ''Summer''), sum_CrimeCount = 20, mean_CrimeRatePer1000 = Fin 4\<rparr>}
     = set [\<lparr>key = (''Camden'', ''Summer''), sum_CrimeCount = 20, mean_CrimeRatePer1000 = Fin 4\<rparr>,
      \<lparr>key = (''Camden'', ''Winter''), sum_CrimeCount = 10, mean_CrimeRatePer1000 = Fin (2::rat)\<rparr>]"
    by (simp only: list.set insert_commute)
  with b s show ?thesis
    by (simp only: simp_thms)
qed

section \<open>The seasonal callback on all boroughs\<close>

lemma sort_remdups_cong: "set xs = set ys \<Longrightarrow> sort (remdups xs) = sort (remdups ys)"
  by (simp only: sorted_list_of_set_sort_remdups [symmetric])







section \<open>The position of the maximum, and the greatest mean\<close>

lemma argmax_from_split:
  "\<exists>pre post m. (k, v) # rest = pre @ (argmax_from k v rest, m) # post \<and>
     (\<forall>p \<in> set pre. sint (snd p) < sint m) \<and> (\<forall>p \<in> set post. sint (snd p) \<le> sint m)"
proof (induction rest arbitrary: k v)
  case Nil
  have "(k, v) # [] = [] @ (argmax_from k v [], v) # []" by simp
  then show ?case by fastforce
next
  case (Cons kv rest)
  obtain k' v' where kv: "kv = (k', v')" by (cases kv)
  show ?case
  proof (cases "sint v < sint v'")
    case True
    from Cons.IH [of k' v'] obtain pre post m where
      eq: "(k', v') # rest = pre @ (argmax_from k' v' rest, m) # post"
      and lt: "\<forall>p \<in> set pre. sint (snd p) < sint m"
      and le: "\<forall>p \<in> set post. sint (snd p) \<le> sint m"
      by blast
    have "sint v' \<le> sint m"
    proof (cases pre)
      case Nil
      with eq show ?thesis by simp
    next
      case (Cons p ps)
      with eq have "(k', v') \<in> set pre" by simp
      with lt show ?thesis by fastforce
    qed
    with True have "sint v < sint m" by simp
    with lt have lt': "\<forall>p \<in> set ((k, v) # pre). sint (snd p) < sint m" by simp
    have res: "argmax_from k v (kv # rest) = argmax_from k' v' rest"
      using True kv by simp
    have "(k, v) # kv # rest = ((k, v) # pre) @ (x, m) # post"
      if "(k', v') # rest = pre @ (x, m) # post" for x
      using that kv by simp
    from this [OF eq]
    have "(k, v) # kv # rest = ((k, v) # pre) @ (argmax_from k v (kv # rest), m) # post"
      unfolding res .
    with lt' le show ?thesis by blast
  next
    case False
    from Cons.IH [of k v] obtain pre post m where
      eq: "(k, v) # rest = pre @ (argmax_from k v rest, m) # post"
      and lt: "\<forall>p \<in> set pre. sint (snd p) < sint m"
      and le: "\<forall>p \<in> set post. sint (snd p) \<le> sint m"
      by blast
    have res: "argmax_from k v (kv # rest) = argmax_from k v rest"
      using False kv by simp
    show ?thesis
    proof (cases pre)
      case Nil
      with eq have e: "(k, v) # rest = (argmax_from k v rest, m) # post"
        by (simp only: append_Nil)
      note e' = e [unfolded list.inject prod.inject]
      have m: "m = v" using e' by (elim conjE) (erule sym)
      have post: "post = rest" using e' by (elim conjE) (erule sym)
      have k: "argmax_from k v rest = k" using e' by (elim conjE) (erule sym)
      have "(k, v) # kv # rest = [] @ (argmax_from k v (kv # rest), m) # (kv # post)"
        by (simp only: res k m post append_Nil)
      moreover have "\<forall>p \<in> set (kv # post). sint (snd p) \<le> sint m"
        using le False kv m by simp
      ultimately show ?thesis by fastforce
    next
      case (Cons p ps)
      with eq have p: "p = (k, v)" and rest: "rest = ps @ (argmax_from k v rest, m) # post"
        by simp_all
      from lt Cons p have "sint v < sint m" by simp
      with False kv have "sint (snd kv) < sint m" by simp
      with lt Cons have lt': "\<forall>q \<in> set ((k, v) # kv # ps). sint (snd q) < sint m"
        using p by simp
      have "(k, v) # kv # rest = ((k, v) # kv # ps) @ (x, m) # post"
        if "rest = ps @ (x, m) # post" for x
        using that by simp
      from this [OF rest]
      have "(k, v) # kv # rest = ((k, v) # kv # ps) @ (argmax_from k v (kv # rest), m) # post"
        unfolding res .
      with lt' le show ?thesis by blast
    qed
  qed
qed

lemma idxmax_first_max:
  fixes ks :: "'k::linorder list"
  assumes "sorted ks" and "distinct ks" and "ks \<noteq> []"
  shows "\<exists>b. idxmax (map (\<lambda>k. (k, f k)) ks) = Inr b \<and> b \<in> set ks \<and>
           (\<forall>k \<in> set ks. sint (f k) \<le> sint (f b)) \<and>
           (\<forall>k \<in> set ks. k < b \<longrightarrow> sint (f k) < sint (f b))"
proof -
  from assms(3) obtain k0 rest where ks: "ks = k0 # rest" by (cases ks) auto
  let ?series = "map (\<lambda>k. (k, f k)) ks"
  let ?b = "argmax_from k0 (f k0) (map (\<lambda>k. (k, f k)) rest)"
  have idx: "idxmax ?series = Inr ?b"
    by (simp add: ks idxmax_def)
  from argmax_from_split [of k0 "f k0" "map (\<lambda>k. (k, f k)) rest"]
  obtain pre post m where
    eq: "?series = pre @ (?b, m) # post"
    and lt: "\<forall>p \<in> set pre. sint (snd p) < sint m"
    and le: "\<forall>p \<in> set post. sint (snd p) \<le> sint m"
    unfolding ks by auto
  have val: "snd p = f (fst p)" if "p \<in> set ?series" for p
    using that by auto
  have "(?b, m) \<in> set ?series" by (simp add: eq)
  from val [OF this] have m: "m = f ?b" by simp
  have keys: "ks = map fst pre @ ?b # map fst post"
  proof -
    have "map fst ?series = ks" by (simp add: comp_def)
    then show ?thesis by (simp add: eq)
  qed
  have b_in: "?b \<in> set ks" by (subst keys) simp
  have pre_sub: "set pre \<subseteq> set ?series" and post_sub: "set post \<subseteq> set ?series"
    by (auto simp: eq)
  have max: "sint (f k) \<le> sint (f ?b)" if "k \<in> set ks" for k
  proof -
    from that have "(k, f k) \<in> set ?series" by auto
    then have "(k, f k) \<in> set pre \<or> (k, f k) = (?b, m) \<or> (k, f k) \<in> set post"
      unfolding eq by auto
    then show ?thesis
      using lt le m by fastforce
  qed
  have first: "sint (f k) < sint (f ?b)" if "k \<in> set ks" and "k < ?b" for k
  proof -
    from assms(1) have "\<forall>y \<in> set (map fst post). ?b \<le> y"
      by (subst (asm) keys) (simp add: sorted_append)
    with that(2) have "k \<notin> set (map fst post)" by auto
    moreover from that(2) have "k \<noteq> ?b" by simp
    ultimately have "k \<in> set (map fst pre)"
      using that(1) by (subst (asm) keys) simp
    then obtain p where p: "p \<in> set pre" and k: "fst p = k" by auto
    from p pre_sub have "snd p = f (fst p)" by (intro val) auto
    moreover from lt p have "sint (snd p) < sint m" by blast
    ultimately show ?thesis unfolding k m by simp
  qed
  from idx b_in max first show ?thesis by blast
qed

lemma finite_values_set: "set (finite_values xs) = {x. Fin x \<in> set xs}"
  by (induction xs rule: finite_values.induct) auto

lemma finite_values_Fin: "finite_values (map Fin vs) = vs"
  by (induction vs) simp_all

lemma series_max_greatest:
  "(series_max xs = NaN \<and> (\<forall>x. Fin x \<notin> set xs)) \<or>
   (\<exists>m. series_max xs = Fin m \<and> Fin m \<in> set xs \<and> (\<forall>x. Fin x \<in> set xs \<longrightarrow> x \<le> m))"
proof (cases "finite_values xs")
  case Nil
  then have "\<forall>x. Fin x \<notin> set xs"
    using finite_values_set [of xs] by simp
  with Nil show ?thesis by (simp add: series_max_def)
next
  case (Cons v vs)
  let ?m = "fold max vs v"
  have m: "?m = Max (set (v # vs))" by (simp only: Max.set_eq_fold)
  have "?m \<in> set (v # vs)" unfolding m by (rule Max_in) simp_all
  then have attained: "Fin ?m \<in> set xs"
    using finite_values_set [of xs] Cons by auto
  have "x \<le> ?m" if "Fin x \<in> set xs" for x
  proof -
    from that have "x \<in> set (v # vs)"
      using finite_values_set [of xs] Cons by auto
    then show ?thesis unfolding m by (intro Max_ge) simp_all
  qed
  with attained Cons show ?thesis by (simp add: series_max_def)
qed

lemma mean_single: "mean [x] = x"
  by (cases x) (simp_all add: mean_def)

lemma series_max_single: "series_max [x] = x"
  by (cases x) (simp_all add: series_max_def)

lemma mean_Fin:
  "mean (map Fin vs) = (if vs = [] then NaN else Fin (sum_list vs / of_nat (length vs)))"
  by (simp add: mean_def finite_values_Fin)

lemma keys_single: "xs \<noteq> [] \<Longrightarrow> \<forall>x \<in> set xs. x = a \<Longrightarrow> sort (remdups xs) = [a]"
proof -
  assume "xs \<noteq> []" and "\<forall>x \<in> set xs. x = a"
  then have "set xs = set [a]" by (cases xs) auto
  then have "sort (remdups xs) = sort (remdups [a])" by (rule sort_remdups_cong)
  then show ?thesis by simp
qed

section \<open>The statistics summary\<close>

lemma borough_series:
  "map (\<lambda>(k, rows). (k, sum_list (map CrimeCount rows))) (groupby Boroughs fd) =
   map (\<lambda>k. (k, sum_list (map CrimeCount (filter (\<lambda>r. Boroughs r = k) fd))))
     (sort (remdups (map Boroughs fd)))"
  by (simp add: groupby_def comp_def)

lemma borough_means:
  "map (\<lambda>(k, rows). mean (map CrimeRatePer1000 rows)) (groupby Boroughs fd) =
   map (\<lambda>k. mean (map CrimeRatePer1000 (filter (\<lambda>r. Boroughs r = k) fd)))
     (sort (remdups (map Boroughs fd)))"
  by (simp add: groupby_def comp_def)

lemma update_statistics_and_table_result:
  assumes "idxmax (map (\<lambda>(k, rows). (k, sum_list (map CrimeCount rows)))
             (groupby Boroughs (select_crime_type (crime_data g) c))) = Inr b"
  shows "update_statistics_and_table g c =
    (Inr ([[Lit ''Total Crimes: '',
            FInt (sum_list (map CrimeCount (select_crime_type (crime_data g) c)))],
           [Lit ''Average Crime Rate (per 1000): '',
            FFloat2 (mean (map CrimeRatePer1000 (select_crime_type (crime_data g) c)))],
           [Lit ''Most Affected Borough: '', FStr b],
           [Lit ''Highest Crime Rate (per 1000): '',
            FFloat2 (series_max (map (\<lambda>(k, rows). mean (map CrimeRatePer1000 rows))
               (groupby Boroughs (select_crime_type (crime_data g) c))))]],
          agg_sum_mean Boroughs CrimeCount CrimeRatePer1000
            (select_crime_type (crime_data g) c)), g)"
  unfolding update_statistics_and_table_def Let_def assms by simp

text \<open>
  C6. When the rows selected for the crime type are not empty,
  \<open>update_statistics_and_table\<close> returns and leaves the globals alone. Its list
  shows the \<^verbatim>\<open>int64\<close> sum of \<^verbatim>\<open>CrimeCount\<close>, the mean of \<^verbatim>\<open>CrimeRatePer1000\<close>
  (the sum over the count when no cell is missing), a borough \<open>b\<close> of the
  selection whose summed \<^verbatim>\<open>CrimeCount\<close> is greatest, every borough that sorts
  before \<open>b\<close> having a strictly smaller sum (the grouped series is in ascending
  borough order, and \<^verbatim>\<open>idxmax\<close> takes the first maximum), and a rate \<open>h\<close> that
  is the mean of some borough and is at least every per-borough mean (\<open>NaN\<close>
  only when no borough has a mean). When all selected rows are of one borough,
  that borough is \<open>b\<close> and \<open>h\<close> is the overall mean; when there is a single
  selected row, \<open>h\<close> is that row's rate.
\<close>

theorem statistics_summary:
  fixes g :: "'g globals" and c :: string
  defines "fd \<equiv> select_crime_type (crime_data g) c"
  defines "count_of \<equiv> \<lambda>b. sum_list (map CrimeCount (filter (\<lambda>r. Boroughs r = b) fd))"
  defines "rate_of \<equiv> \<lambda>b. mean (map CrimeRatePer1000 (filter (\<lambda>r. Boroughs r = b) fd))"
  assumes nonempty: "fd \<noteq> []"
  shows "\<exists>b h.
    update_statistics_and_table g c =
      (Inr ([[Lit ''Total Crimes: '', FInt (sum_list (map CrimeCount fd))],
             [Lit ''Average Crime Rate (per 1000): '', FFloat2 (mean (map CrimeRatePer1000 fd))],
             [Lit ''Most Affected Borough: '', FStr b],
             [Lit ''Highest Crime Rate (per 1000): '', FFloat2 h]],
            agg_sum_mean Boroughs CrimeCount CrimeRatePer1000 fd), g) \<and>
    b \<in> Boroughs ` set fd \<and>
    (\<forall>b' \<in> Boroughs ` set fd. sint (count_of b') \<le> sint (count_of b)) \<and>
    (\<forall>b' \<in> Boroughs ` set fd. b' < b \<longrightarrow> sint (count_of b') < sint (count_of b)) \<and>
    ((h = NaN \<and> (\<forall>b' \<in> Boroughs ` set fd. rate_of b' = NaN)) \<or>
     (\<exists>b' \<in> Boroughs ` set fd. h = rate_of b')) \<and>
    (\<forall>b' \<in> Boroughs ` set fd. \<forall>x. rate_of b' = Fin x \<longrightarrow> (\<exists>m. h = Fin m \<and> x \<le> m)) \<and>
    (\<forall>vs. map CrimeRatePer1000 fd = map Fin vs \<longrightarrow>
       mean (map CrimeRatePer1000 fd) = Fin (sum_list vs / of_nat (length vs))) \<and>
    (\<forall>b0. (\<forall>r \<in> set fd. Boroughs r = b0) \<longrightarrow> b = b0 \<and> h = mean (map CrimeRatePer1000 fd)) \<and>
    (\<forall>r. fd = [r] \<longrightarrow> b = Boroughs r \<and> h = CrimeRatePer1000 r)"
proof -
  let ?keys = "sort (remdups (map Boroughs fd))"
  let ?h = "series_max (map rate_of ?keys)"
  have keys_set: "set ?keys = Boroughs ` set fd" by simp
  have keys_ne: "?keys \<noteq> []"
  proof
    assume "?keys = []"
    then have "set ?keys = {}" by (simp only: set_empty)
    then show False using nonempty by simp
  qed
  from idxmax_first_max [of ?keys count_of] keys_ne
  obtain b where idx: "idxmax (map (\<lambda>k. (k, count_of k)) ?keys) = Inr b"
    and b_in: "b \<in> set ?keys"
    and b_max: "\<forall>k \<in> set ?keys. sint (count_of k) \<le> sint (count_of b)"
    and b_first: "\<forall>k \<in> set ?keys. k < b \<longrightarrow> sint (count_of k) < sint (count_of b)"
    by auto
  have result: "update_statistics_and_table g c =
      (Inr ([[Lit ''Total Crimes: '', FInt (sum_list (map CrimeCount fd))],
             [Lit ''Average Crime Rate (per 1000): '', FFloat2 (mean (map CrimeRatePer1000 fd))],
             [Lit ''Most Affected Borough: '', FStr b],
             [Lit ''Highest Crime Rate (per 1000): '', FFloat2 ?h]],
            agg_sum_mean Boroughs CrimeCount CrimeRatePer1000 fd), g)"
  proof -
    have "idxmax (map (\<lambda>(k, rows). (k, sum_list (map CrimeCount rows)))
             (groupby Boroughs (select_crime_type (crime_data g) c))) = Inr b"
      using idx unfolding borough_series count_of_def fd_def .
    from update_statistics_and_table_result [OF this] show ?thesis
      unfolding borough_means rate_of_def fd_def .
  qed
  have rate_set: "set (map rate_of ?keys) = rate_of ` (Boroughs ` set fd)"
    by (simp only: set_map keys_set)
  have h_attained: "(?h = NaN \<and> (\<forall>b' \<in> Boroughs ` set fd. rate_of b' = NaN)) \<or>
     (\<exists>b' \<in> Boroughs ` set fd. ?h = rate_of b')"
  proof -
    from series_max_greatest [of "map rate_of ?keys"]
    consider (nan) "?h = NaN" and "\<forall>x. Fin x \<notin> set (map rate_of ?keys)"
      | (fin) m where "?h = Fin m" and "Fin m \<in> set (map rate_of ?keys)"
      by blast
    then show ?thesis
    proof cases
      case nan
      have "rate_of b' = NaN" if "b' \<in> Boroughs ` set fd" for b'
      proof (cases "rate_of b'")
        case NaN
        then show ?thesis .
      next
        case (Fin x)
        with that have "Fin x \<in> set (map rate_of ?keys)"
          unfolding rate_set by (metis imageI)
        with nan(2) show ?thesis by blast
      qed
      with nan(1) show ?thesis by blast
    next
      case fin
      from fin(2) obtain b' where "b' \<in> Boroughs ` set fd" and "Fin m = rate_of b'"
        unfolding rate_set by blast
      with fin(1) show ?thesis by auto
    qed
  qed
  have h_greatest: "\<forall>b' \<in> Boroughs ` set fd. \<forall>x. rate_of b' = Fin x \<longrightarrow> (\<exists>m. ?h = Fin m \<and> x \<le> m)"
  proof (intro ballI allI impI)
    fix b' x assume b': "b' \<in> Boroughs ` set fd" and x: "rate_of b' = Fin x"
    then have "Fin x \<in> set (map rate_of ?keys)"
      unfolding rate_set by (metis imageI)
    with series_max_greatest [of "map rate_of ?keys"]
    show "\<exists>m. ?h = Fin m \<and> x \<le> m" by blast
  qed
  have mean_finite: "\<forall>vs. map CrimeRatePer1000 fd = map Fin vs \<longrightarrow>
       mean (map CrimeRatePer1000 fd) = Fin (sum_list vs / of_nat (length vs))"
  proof (intro allI impI)
    fix vs assume vs: "map CrimeRatePer1000 fd = map Fin vs"
    then have "length vs = length fd" by (metis length_map)
    with nonempty have "vs \<noteq> []" by auto
    then show "mean (map CrimeRatePer1000 fd) = Fin (sum_list vs / of_nat (length vs))"
      unfolding vs by (simp add: mean_Fin)
  qed
  have one_borough: "\<forall>b0. (\<forall>r \<in> set fd. Boroughs r = b0) \<longrightarrow>
      b = b0 \<and> ?h = mean (map CrimeRatePer1000 fd)"
  proof (intro allI impI)
    fix b0 assume all: "\<forall>r \<in> set fd. Boroughs r = b0"
    from nonempty all have keys: "?keys = [b0]"
      by (intro keys_single) auto
    from all have "filter (\<lambda>r. Boroughs r = b0) fd = fd"
      by (simp add: filter_id_conv)
    then have "rate_of b0 = mean (map CrimeRatePer1000 fd)"
      by (simp add: rate_of_def)
    moreover from b_in have "b = b0" unfolding keys by simp
    ultimately show "b = b0 \<and> ?h = mean (map CrimeRatePer1000 fd)"
      unfolding keys by (simp add: series_max_single)
  qed
  have one_row: "\<forall>r. fd = [r] \<longrightarrow> b = Boroughs r \<and> ?h = CrimeRatePer1000 r"
  proof (intro allI impI)
    fix r assume r: "fd = [r]"
    then have "\<forall>x \<in> set fd. Boroughs x = Boroughs r" by simp
    with one_borough have "b = Boroughs r" and "?h = mean (map CrimeRatePer1000 fd)"
      by blast+
    then show "b = Boroughs r \<and> ?h = CrimeRatePer1000 r"
      by (simp add: r mean_single)
  qed
  from b_in b_max b_first
  have b_in': "b \<in> Boroughs ` set fd"
    and b_max': "\<forall>b' \<in> Boroughs ` set fd. sint (count_of b') \<le> sint (count_of b)"
    and b_first': "\<forall>b' \<in> Boroughs ` set fd. b' < b \<longrightarrow> sint (count_of b') < sint (count_of b)"
    unfolding keys_set by blast+
  from result b_in' b_max' b_first' h_attained h_greatest mean_finite one_borough one_row
  show ?thesis
    by (intro exI [of _ b] exI [of _ ?h] conjI)
qed

theorem statistics_summary_witness:
  "select_crime_type (crime_data (startup [camden_january] ([] :: unit boundary list)))
     ''Burglary'' \<noteq> [] \<and>
   update_statistics_and_table (startup [camden_january] ([] :: unit boundary list)) ''Burglary'' =
     (Inr ([[Lit ''Total Crimes: '', FInt 10],
            [Lit ''Average Crime Rate (per 1000): '', FFloat2 (Fin 2)],
            [Lit ''Most Affected Borough: '', FStr ''Camden''],
            [Lit ''Highest Crime Rate (per 1000): '', FFloat2 (Fin 2)]],
           [\<lparr>key = ''Camden'', sum_CrimeCount = 10, mean_CrimeRatePer1000 = Fin 2\<rparr>]),
      startup [camden_january] [])"
proof -
  let ?g = "startup [camden_january] ([] :: unit boundary list)"
  let ?fd = "select_crime_type (crime_data ?g) ''Burglary''"
  have fd: "?fd = [add_season camden_january]"
    by (simp add: startup_crime_data select_crime_type_def add_season_def camden_january_def)
  then have ne: "?fd \<noteq> []" by simp
  from statistics_summary [OF ne] obtain b h where
    res: "update_statistics_and_table ?g ''Burglary'' =
      (Inr ([[Lit ''Total Crimes: '', FInt (sum_list (map CrimeCount ?fd))],
             [Lit ''Average Crime Rate (per 1000): '', FFloat2 (mean (map CrimeRatePer1000 ?fd))],
             [Lit ''Most Affected Borough: '', FStr b],
             [Lit ''Highest Crime Rate (per 1000): '', FFloat2 h]],
            agg_sum_mean Boroughs CrimeCount CrimeRatePer1000 ?fd), ?g)"
    and one: "\<forall>r. ?fd = [r] \<longrightarrow> b = Boroughs r \<and> h = CrimeRatePer1000 r"
    by blast
  from one fd have b: "b = ''Camden''" and h: "h = Fin 2"
    by (simp_all add: add_season_def camden_january_def)
  have total: "sum_list (map CrimeCount ?fd) = 10"
    and avg: "mean (map CrimeRatePer1000 ?fd) = Fin 2"
    and table: "agg_sum_mean Boroughs CrimeCount CrimeRatePer1000 ?fd =
      [\<lparr>key = ''Camden'', sum_CrimeCount = 10, mean_CrimeRatePer1000 = Fin 2\<rparr>]"
    unfolding fd
    by (simp_all add: add_season_def camden_january_def mean_def agg_sum_mean_def groupby_def)
  from ne res show ?thesis
    unfolding total avg table b h by (intro conjI)
qed

text \<open>
  On a tie the borough that sorts first is shown, not the one whose rows come
  first in the table: Westminster's row precedes Camden's, both sum to 5, and
  Camden is the most affected borough.
\<close>

lemma statistics_tie_break_example:
  "fst (update_statistics_and_table (startup tie_table ([] :: unit boundary list)) ''Burglary'') =
     Inr ([[Lit ''Total Crimes: '', FInt 10],
           [Lit ''Average Crime Rate (per 1000): '', FFloat2 (Fin 2)],
           [Lit ''Most Affected Borough: '', FStr ''Camden''],
           [Lit ''Highest Crime Rate (per 1000): '', FFloat2 (Fin 3)]],
          [\<lparr>key = ''Camden'', sum_CrimeCount = 5, mean_CrimeRatePer1000 = Fin 3\<rparr>,
           \<lparr>key = ''Westminster'', sum_CrimeCount = 5, mean_CrimeRatePer1000 = Fin 1\<rparr>])"
  by (simp add: update_statistics_and_table_def startup_crime_data select_crime_type_def
      add_season_def tie_table_def groupby_def idxmax_def mean_def series_max_def
      agg_sum_mean_def)

section \<open>The statistics callback on an empty selection\<close>

theorem statistics_empty_selection_counterexample:
  "select_crime_type (crime_data (startup [camden_january] ([] :: unit boundary list)))
     ''Robbery'' = [] \<and>
   fst (update_statistics_and_table (startup [camden_january] ([] :: unit boundary list))
     ''Robbery'') = Inl ValueError"
  by (simp add: update_statistics_and_table_def startup_crime_data select_crime_type_def
      add_season_def camden_january_def groupby_def idxmax_def)

text \<open>
  C9, as amended. When the rows selected for the crime type are empty, the
  grouping has no groups and the aggregate table no rows, the sum of
  \<^verbatim>\<open>CrimeCount\<close> is 0 and the mean of \<^verbatim>\<open>CrimeRatePer1000\<close> is NaN, but
  \<^verbatim>\<open>idxmax\<close> on the empty series raises \<^verbatim>\<open>ValueError\<close>:
  \<open>update_statistics_and_table\<close> raises it and returns no statistics.
\<close>

theorem statistics_empty_selection_raises:
  assumes "select_crime_type (crime_data g) c = []"
  shows "groupby Boroughs (select_crime_type (crime_data g) c) = [] \<and>
    agg_sum_mean Boroughs CrimeCount CrimeRatePer1000 (select_crime_type (crime_data g) c) = [] \<and>
    sum_list (map CrimeCount (select_crime_type (crime_data g) c)) = 0 \<and>
    mean (map CrimeRatePer1000 (select_crime_type (crime_data g) c)) = NaN \<and>
    update_statistics_and_table g c = (Inl ValueError, g)"
  unfolding assms
  by (simp add: update_statistics_and_table_def assms groupby_def agg_sum_mean_def mean_def
      idxmax_def)

theorem statistics_empty_selection_raises_witness:
  "select_crime_type (crime_data (startup mean_of_means_table ([] :: unit boundary list)))
     ''Robbery'' = [] \<and>
   update_statistics_and_table (startup mean_of_means_table ([] :: unit boundary list))
     ''Robbery'' = (Inl ValueError, startup mean_of_means_table [])"
proof -
  let ?g = "startup mean_of_means_table ([] :: unit boundary list)"
  have empty: "select_crime_type (crime_data ?g) ''Robbery'' = []"
    by (simp add: startup_crime_data select_crime_type_def add_season_def mean_of_means_table_def)
  from statistics_empty_selection_raises [OF empty] empty show ?thesis
    by blast
qed

section \<open>Callbacks and the frame of a dispatch\<close>

lemma update_seasonal_graph_globals: "update_seasonal_graph g b = (f, g') \<Longrightarrow> g' = g"
  by (auto simp: update_seasonal_graph_def Let_def split: prod.splits)

lemma update_borough_comparison_globals:
  "update_borough_comparison g c bs = (f, g') \<Longrightarrow> g' = g"
  by (auto simp: update_borough_comparison_def Let_def)

lemma update_statistics_and_table_globals:
  "update_statistics_and_table g c = (r, g') \<Longrightarrow> g' = g"
  by (auto simp: update_statistics_and_table_def Let_def split: sum.splits)

lemma update_geospatial_map_globals: "update_geospatial_map g c = (f, g') \<Longrightarrow> g' = g"
  by (auto simp: update_geospatial_map_def Let_def)

lemma registered_seasonal_graph_globals: "snd (func registered_seasonal_graph g args) = g"
  by (auto simp: registered_seasonal_graph_def dest: update_seasonal_graph_globals
      split: list.splits pvalue.splits prod.splits)

lemma registered_borough_comparison_globals:
  "snd (func registered_borough_comparison g args) = g"
  by (auto simp: registered_borough_comparison_def dest: update_borough_comparison_globals
      split: list.splits pvalue.splits prod.splits)

lemma registered_statistics_and_table_globals:
  "snd (func registered_statistics_and_table g args) = g"
  by (auto simp: registered_statistics_and_table_def dest: update_statistics_and_table_globals
      split: list.splits pvalue.splits prod.splits sum.splits)

lemma registered_geospatial_map_globals: "snd (func registered_geospatial_map g args) = g"
  by (auto simp: registered_geospatial_map_def dest: update_geospatial_map_globals
      split: list.splits pvalue.splits prod.splits)

lemma callbacks_func_globals:
  assumes "cb \<in> set callbacks"
  shows "snd (func cb g args) = g"
  using assms registered_seasonal_graph_globals registered_borough_comparison_globals
    registered_statistics_and_table_globals registered_geospatial_map_globals
  by (auto simp: callbacks_def)

lemma run_callback_server:
  assumes "cb \<in> set callbacks"
  shows "server (run_callback cb s) = server s"
proof (cases "those (map (view s) (Inputs cb))")
  case None
  then show ?thesis by (simp add: run_callback_def)
next
  case (Some args)
  obtain r g' where r: "func cb (server s) args = (r, g')"
    by (cases "func cb (server s) args")
  with callbacks_func_globals [OF assms, of "server s" args] have "g' = server s"
    by simp
  with Some r show ?thesis
    by (cases r) (simp_all add: run_callback_def)
qed

lemma write_props_other: "q \<notin> fst ` set pvs \<Longrightarrow> write_props pvs m q = m q"
  by (induction pvs m rule: write_props.induct) auto

lemma run_callback_view:
  assumes "q \<notin> set (Outputs cb)"
  shows "view (run_callback cb s) q = view s q"
proof (cases "those (map (view s) (Inputs cb))")
  case None
  then show ?thesis by (simp add: run_callback_def)
next
  case (Some args)
  obtain r g' where r: "func cb (server s) args = (r, g')"
    by (cases "func cb (server s) args")
  show ?thesis
  proof (cases r)
    case (Inl e)
    with Some r show ?thesis by (simp add: run_callback_def)
  next
    case (Inr outs)
    from assms have "q \<notin> fst ` set (zip (Outputs cb) outs)"
      by (auto dest: set_zip_leftD)
    then have "write_props (zip (Outputs cb) outs) (view s) q = view s q"
      by (rule write_props_other)
    with Some r Inr show ?thesis by (simp add: run_callback_def)
  qed
qed

lemma fold_run_callback_server:
  "set cbs \<subseteq> set callbacks \<Longrightarrow> server (fold run_callback cbs s) = server s"
  by (induction cbs arbitrary: s) (simp_all add: run_callback_server)

lemma fold_run_callback_view:
  "q \<notin> set (concat (map Outputs cbs)) \<Longrightarrow> view (fold run_callback cbs s) q = view s q"
  by (induction cbs arbitrary: s) (simp_all add: run_callback_view)

lemma fire_server: "server (fire p v s) = server s"
proof -
  have "set (triggered p :: 'a callback list) \<subseteq> set callbacks"
    by (auto simp: triggered_def)
  then show ?thesis
    by (simp add: fire_def fold_run_callback_server)
qed

lemma fire_view:
  assumes "q \<noteq> p" and "q \<notin> set (concat (map Outputs (triggered p :: 'g callback list)))"
  shows "view (fire p v (s :: 'g app)) q = view s q"
  using assms by (simp add: fire_def fold_run_callback_view)

lemma run_events_server: "server (run_events es s) = server s"
  by (induction es arbitrary: s) (simp_all add: run_events_def fire_server split: prod.splits)

lemma triggered_outputs:
  "concat (map Outputs (triggered (''borough-dropdown'', ''value'') :: 'g callback list)) =
     [(''seasonal-crime-pattern-graph'', ''figure'')]"
  "concat (map Outputs (triggered (''crime-type-dropdown'', ''value'') :: 'g callback list)) =
     [(''borough-comparison-bar-chart'', ''figure'')]"
  "concat (map Outputs (triggered (''borough-comparison-dropdown'', ''value'') :: 'g callback list)) =
     [(''borough-comparison-bar-chart'', ''figure'')]"
  "concat (map Outputs (triggered (''crime-type-dropdown-stats'', ''value'') :: 'g callback list)) =
     [(''statistics-content'', ''children''), (''crime-data-table'', ''data'')]"
  by (simp_all add: triggered_def callbacks_def registered_seasonal_graph_def
      registered_borough_comparison_def registered_statistics_and_table_def
      registered_geospatial_map_def)

text \<open>
  C8. A selection change on a control runs the callbacks that list the control
  among their inputs, and nothing else is touched: the globals (the crime table
  and the boundary table among them) are what they were, and so is every page
  property other than the changed one and the declared outputs of those
  callbacks. The outputs per control are: the seasonal graph for the season
  tab's borough selector, the comparison chart for the two comparison controls,
  the statistics list and the data table for the statistics selector. No
  registered function changes the globals, so after any sequence of events the
  tables are those of start-up.
\<close>

theorem callbacks_frame:
  fixes s :: "'g app" and g :: "'g globals"
  shows
  "server (fire p v s) = server s \<and>
   (q \<noteq> p \<and> q \<notin> set (concat (map Outputs (triggered p :: 'g callback list))) \<longrightarrow>
      view (fire p v s) q = view s q) \<and>
   (\<forall>cb \<in> set callbacks. snd (func cb g args) = g) \<and>
   server (run_events es s) = server s \<and>
   crime_data (server (run_events es \<lparr>server = startup csv geo, view = vw\<rparr>)) =
     map add_season csv \<and>
   geo_df (server (run_events es \<lparr>server = startup csv geo, view = vw\<rparr>)) =
     map (\<lambda>b. b\<lparr>name := str_lower (str_strip (name b))\<rparr>) geo \<and>
   concat (map Outputs (triggered (''borough-dropdown'', ''value'') :: 'g callback list)) =
     [(''seasonal-crime-pattern-graph'', ''figure'')] \<and>
   concat (map Outputs (triggered (''crime-type-dropdown'', ''value'') :: 'g callback list)) =
     [(''borough-comparison-bar-chart'', ''figure'')] \<and>
   concat (map Outputs
       (triggered (''borough-comparison-dropdown'', ''value'') :: 'g callback list)) =
     [(''borough-comparison-bar-chart'', ''figure'')] \<and>
   concat (map Outputs (triggered (''crime-type-dropdown-stats'', ''value'') :: 'g callback list)) =
     [(''statistics-content'', ''children''), (''crime-data-table'', ''data'')]"
proof (intro conjI)
  show "server (fire p v s) = server s"
    by (rule fire_server)
  show "q \<noteq> p \<and> q \<notin> set (concat (map Outputs (triggered p :: 'g callback list))) \<longrightarrow>
      view (fire p v s) q = view s q"
    using fire_view [of q p v s] by blast
  show "\<forall>cb \<in> set callbacks. snd (func cb g args) = g"
    using callbacks_func_globals by blast
  show "server (run_events es s) = server s"
    by (rule run_events_server)
  show "crime_data (server (run_events es \<lparr>server = startup csv geo, view = vw\<rparr>)) =
     map add_season csv"
    by (simp only: run_events_server app.simps startup_crime_data)
  show "geo_df (server (run_events es \<lparr>server = startup csv geo, view = vw\<rparr>)) =
     map (\<lambda>b. b\<lparr>name := str_lower (str_strip (name b))\<rparr>) geo"
    by (simp only: run_events_server app.simps startup_geo_df)
qed (rule triggered_outputs)+

lemma stats_selection_view:
  "view stats_selection (''statistics-content'', ''children'') =
     Some (VChildren
        [[Lit ''Total Crimes: '', FInt 10],
         [Lit ''Average Crime Rate (per 1000): '', FFloat2 (Fin 2)],
         [Lit ''Most Affected Borough: '', FStr ''Camden''],
         [Lit ''Highest Crime Rate (per 1000): '', FFloat2 (Fin 2)]])"
proof -
  let ?g = "startup [camden_january] ([] :: unit boundary list)"
  let ?s = "\<lparr>server = ?g, view = [(''crime-type-dropdown-stats'', ''value'') \<mapsto> VStr ''Burglary'']\<rparr>"
  let ?stats = "[[Lit ''Total Crimes: '', FInt 10],
         [Lit ''Average Crime Rate (per 1000): '', FFloat2 (Fin 2)],
         [Lit ''Most Affected Borough: '', FStr ''Camden''],
         [Lit ''Highest Crime Rate (per 1000): '', FFloat2 (Fin 2)]]"
  let ?table = "[\<lparr>key = ''Camden'', sum_CrimeCount = 10, mean_CrimeRatePer1000 = Fin 2\<rparr>]"
  have trig: "(triggered (''crime-type-dropdown-stats'', ''value'') :: unit callback list) =
      [registered_statistics_and_table]"
    by (simp add: triggered_def callbacks_def registered_seasonal_graph_def
      registered_borough_comparison_def registered_statistics_and_table_def
      registered_geospatial_map_def)
  have upd: "update_statistics_and_table ?g ''Burglary'' = (Inr (?stats, ?table), ?g)"
    by (simp add: update_statistics_and_table_def startup_crime_data select_crime_type_def
      add_season_def camden_january_def groupby_def idxmax_def mean_def series_max_def
      agg_sum_mean_def)
  have f: "func registered_statistics_and_table ?g [VStr ''Burglary''] =
      (Inr [VChildren ?stats, VData ?table], ?g)"
    by (simp add: registered_statistics_and_table_def upd)
  have inputs: "those (map (view ?s) (Inputs registered_statistics_and_table)) =
      Some [VStr ''Burglary'']"
    by (simp add: registered_statistics_and_table_def)
  have outs: "Outputs (registered_statistics_and_table :: unit callback) =
      [(''statistics-content'', ''children''), (''crime-data-table'', ''data'')]"
    by (simp add: registered_statistics_and_table_def)
  have "view (run_callback registered_statistics_and_table ?s)
      (''statistics-content'', ''children'') = Some (VChildren ?stats)"
    unfolding run_callback_def inputs
    by (simp add: f outs)
  then show ?thesis
    unfolding stats_selection_def fire_def trig by simp
qed

theorem callbacks_frame_witness:
  "(''seasonal-crime-pattern-graph'', ''figure'') \<noteq> (''crime-type-dropdown-stats'', ''value'') \<and>
   (''seasonal-crime-pattern-graph'', ''figure'') \<notin>
     set (concat (map Outputs
       (triggered (''crime-type-dropdown-stats'', ''value'') :: unit callback list))) \<and>
   view stats_selection (''seasonal-crime-pattern-graph'', ''figure'') = None \<and>
   view stats_selection (''statistics-content'', ''children'') =
     Some (VChildren
        [[Lit ''Total Crimes: '', FInt 10],
         [Lit ''Average Crime Rate (per 1000): '', FFloat2 (Fin 2)],
         [Lit ''Most Affected Borough: '', FStr ''Camden''],
         [Lit ''Highest Crime Rate (per 1000): '', FFloat2 (Fin 2)]]) \<and>
   server stats_selection = startup [camden_january] []"
proof -
  let ?p = "(''crime-type-dropdown-stats'', ''value'')"
  let ?q = "(''seasonal-crime-pattern-graph'', ''figure'')"
  let ?s = "\<lparr>server = startup [camden_january] ([] :: unit boundary list), view = Map.empty\<rparr>"
  note frame = callbacks_frame [of ?p "VStr ''Burglary''" ?s ?q]
  have ne: "?q \<noteq> ?p" by simp
  have out: "?q \<notin> set (concat (map Outputs (triggered ?p :: unit callback list)))"
    by (simp add: triggered_outputs)
  from frame ne out have "view (fire ?p (VStr ''Burglary'') ?s) ?q = view ?s ?q"
    by blast
  then have unchanged: "view stats_selection ?q = None"
    by (simp add: stats_selection_def)
  from frame have "server (fire ?p (VStr ''Burglary'') ?s) = server ?s"
    by blast
  then have srv: "server stats_selection = startup [camden_january] []"
    by (simp add: stats_selection_def)
  from ne out unchanged stats_selection_view srv show ?thesis
    by (intro conjI)
qed

section \<open>The two geo merges\<close>

lemma update_geospatial_map_frame:
  "data_frame (fst (update_geospatial_map g c)) =
     Merged (merge (geo_df g)
       (agg_pop_sum_mean Boroughs Population CrimeCount CrimeRatePer1000
          (select_crime_type (crime_data g) c)))"
  by (simp add: update_geospatial_map_def Let_def)

lemma normalize_Camden:
  "str_lower (str_strip ''Camden'') = ''camden''"
  "str_lower (str_strip '' camden '') = ''camden''"
  "str_lower (str_strip ''Lambeth'') = ''lambeth''"
  "str_lower (str_strip ''southwark'') = ''southwark''"
  by (simp_all add: str_lower_def str_strip_def lower_char_def whitespace_def
      ascii_uppercase_def ascii_lowercase_def)

text \<open>
  C4. On the table with the single row of Camden and the boundary names
  \<open>''Camden''\<close> and \<open>'' camden ''\<close>, the start-up merge normalizes both tables
  and joins both boundary rows to the Camden aggregate; a boundary
  \<open>''Lambeth''\<close> and an aggregate \<open>''southwark''\<close> give no merged row. The merge
  of \<open>update_geospatial_map\<close> on the same Camden input joins the normalized
  boundary names to the borough names as the file has them, without normalizing
  these, and has no row.
\<close>

theorem geo_merge_callback_not_normalized:
  "map (\<lambda>(b, a). (name b, key a, sum_CrimeCount a))
     (merged_geo_df (startup [camden_january] camden_boundaries)) =
     [(''camden'', ''camden'', 10), (''camden'', ''camden'', 10)] \<and>
   merged_geo_df (startup [southwark_january] lambeth_boundary) = [] \<and>
   map name (geo_df (startup [camden_january] camden_boundaries)) = [''camden'', ''camden''] \<and>
   map key (agg_pop_sum_mean Boroughs Population CrimeCount CrimeRatePer1000
       (select_crime_type (crime_data (startup [camden_january] camden_boundaries))
          ''Burglary'')) = [''Camden''] \<and>
   data_frame (fst (update_geospatial_map (startup [camden_january] camden_boundaries)
       ''Burglary'')) = Merged [] \<and>
   traces (fst (update_geospatial_map (startup [camden_january] camden_boundaries)
       ''Burglary'')) = []"
proof (intro conjI)
  let ?g = "startup [camden_january] camden_boundaries"
  have geo: "geo_df ?g = [\<lparr>name = ''camden'', geometry = ()\<rparr>, \<lparr>name = ''camden'', geometry = ()\<rparr>]"
    by (simp add: startup_geo_df camden_boundaries_def normalize_Camden)
  have sel: "select_crime_type (crime_data ?g) ''Burglary'' = [add_season camden_january]"
    by (simp add: startup_crime_data select_crime_type_def add_season_def camden_january_def)
  have agg: "agg_pop_sum_mean Boroughs Population CrimeCount CrimeRatePer1000
      [add_season camden_january] =
      [\<lparr>key = ''Camden'', sum_CrimeCount = 10, mean_CrimeRatePer1000 = Fin 2,
        mean_Population = Fin 1000\<rparr>]"
    by (simp add: agg_pop_sum_mean_def groupby_def add_season_def camden_january_def mean_def
        int64_to_float_def)
  have level: "borough_level_data ?g =
      [\<lparr>key = ''camden'', sum_CrimeCount = 10, mean_CrimeRatePer1000 = Fin 2,
        mean_Population = Fin 1000\<rparr>]"
    by (simp add: startup_borough_level_data agg normalize_Camden)
  show "map (\<lambda>(b, a). (name b, key a, sum_CrimeCount a)) (merged_geo_df ?g) =
     [(''camden'', ''camden'', 10), (''camden'', ''camden'', 10)]"
    by (simp add: startup_merged_geo_df geo level merge_def)
  show "merged_geo_df (startup [southwark_january] lambeth_boundary) = []"
    by (simp add: startup_merged_geo_df startup_geo_df startup_borough_level_data merge_def
        lambeth_boundary_def southwark_january_def agg_pop_sum_mean_def groupby_def
        add_season_def normalize_Camden)
  show "map name (geo_df ?g) = [''camden'', ''camden'']"
    by (simp add: geo)
  show "map key (agg_pop_sum_mean Boroughs Population CrimeCount CrimeRatePer1000
       (select_crime_type (crime_data ?g) ''Burglary'')) = [''Camden'']"
    by (simp add: sel agg)
  have merged: "merge (geo_df ?g)
       (agg_pop_sum_mean Boroughs Population CrimeCount CrimeRatePer1000
          (select_crime_type (crime_data ?g) ''Burglary'')) = []"
    by (simp add: sel agg geo merge_def)
  show "data_frame (fst (update_geospatial_map ?g ''Burglary'')) = Merged []"
    by (simp only: update_geospatial_map_frame merged)
  show "traces (fst (update_geospatial_map ?g ''Burglary'')) = []"
    using merged by (simp add: update_geospatial_map_def Let_def)
qed

section \<open>The map tab and its callback\<close>

lemma app_layout_cases:
  "(app_layout g = Inl IndexError \<and> crime_data g = []) \<or> (\<exists>page. app_layout g = Inr page)"
proof (cases "crime_data g")
  case Nil
  then show ?thesis by (simp add: app_layout_def unique_def)
next
  case (Cons r rs)
  then have "unique (map MajorCrime (crime_data g)) \<noteq> []"
    by (simp add: unique_def)
  then show ?thesis
    by (simp add: app_layout_def Let_def split: list.splits)
qed

lemma app_layout_ids:
  assumes "app_layout g = Inr page"
  shows "component_ids page =
    [''borough-crime-bar-chart'', ''borough-pie-chart'', ''borough-dropdown'',
     ''seasonal-crime-pattern-graph'', ''yearly-trends-graph'', ''crime-type-dropdown'',
     ''borough-comparison-dropdown'', ''borough-comparison-bar-chart'',
     ''crime-type-dropdown-stats'', ''statistics-content'', ''crime-data-table'',
     ''crime-choropleth-map'']"
  using assms by (auto simp: app_layout_def Let_def split: list.splits)

lemma app_layout_map_tab:
  assumes "app_layout g = Inr page"
  shows "find_tab ''Geospatial Map'' page =
    [Tab ''Geospatial Map''
       [Div [H3 ''Geospatial Map of Borough Crime Data'',
             Graph ''crime-choropleth-map'' (Some (fig g))]]]"
  using assms by (auto simp: app_layout_def Let_def split: list.splits)

lemma map_figure_not_triggered:
  assumes "fst p \<noteq> ''crime-type-dropdown-map''"
  shows "(''crime-choropleth-map'', ''figure'') \<notin>
    set (concat (map Outputs (triggered p :: 'g callback list)))"
  using assms
  by (auto simp: triggered_def callbacks_def registered_seasonal_graph_def
      registered_borough_comparison_def registered_statistics_and_table_def
      registered_geospatial_map_def)

lemma map_figure_callbacks:
  "map Inputs (filter (\<lambda>cb. (''crime-choropleth-map'', ''figure'') \<in> set (Outputs cb))
      (callbacks :: 'g callback list)) = [[(''crime-type-dropdown-map'', ''value'')]]"
  by (simp add: callbacks_def registered_seasonal_graph_def
      registered_borough_comparison_def registered_statistics_and_table_def
      registered_geospatial_map_def)

text \<open>
  C5. Whatever the data, a page that \<open>app_layout\<close> builds has no component with
  the id \<^verbatim>\<open>crime-type-dropdown-map\<close>: its map tab holds a heading and the
  graph \<^verbatim>\<open>crime-choropleth-map\<close> with the start-up figure, and no selector. The
  only callback that writes the map figure listens to that absent id, so a
  change of any property of a component of the page leaves the map figure as it
  was. (The layout is not built when the crime table is empty.)
\<close>

theorem map_tab_has_no_selector:
  fixes g :: "'g globals" and s :: "'g app"
  shows
  "(case app_layout g of
      Inl e \<Rightarrow> crime_data g = []
    | Inr page \<Rightarrow>
        ''crime-type-dropdown-map'' \<notin> set (component_ids page) \<and>
        find_tab ''Geospatial Map'' page =
          [Tab ''Geospatial Map''
             [Div [H3 ''Geospatial Map of Borough Crime Data'',
                   Graph ''crime-choropleth-map'' (Some (fig g))]]] \<and>
        (\<forall>p v. fst p \<in> set (component_ids page) \<and> p \<noteq> (''crime-choropleth-map'', ''figure'') \<longrightarrow>
           view (fire p v s) (''crime-choropleth-map'', ''figure'') =
           view s (''crime-choropleth-map'', ''figure''))) \<and>
   map Inputs (filter (\<lambda>cb. (''crime-choropleth-map'', ''figure'') \<in> set (Outputs cb))
      (callbacks :: 'g callback list)) = [[(''crime-type-dropdown-map'', ''value'')]]"
proof (rule conjI)
  from app_layout_cases [of g]
  show "case app_layout g of
      Inl e \<Rightarrow> crime_data g = []
    | Inr page \<Rightarrow>
        ''crime-type-dropdown-map'' \<notin> set (component_ids page) \<and>
        find_tab ''Geospatial Map'' page =
          [Tab ''Geospatial Map''
             [Div [H3 ''Geospatial Map of Borough Crime Data'',
                   Graph ''crime-choropleth-map'' (Some (fig g))]]] \<and>
        (\<forall>p v. fst p \<in> set (component_ids page) \<and> p \<noteq> (''crime-choropleth-map'', ''figure'') \<longrightarrow>
           view (fire p v s) (''crime-choropleth-map'', ''figure'') =
           view s (''crime-choropleth-map'', ''figure''))"
  proof (elim disjE conjE exE)
    assume "app_layout g = Inl IndexError" and "crime_data g = []"
    then show ?thesis by simp
  next
    fix page assume page: "app_layout g = Inr page"
    note ids = app_layout_ids [OF page]
    have absent: "''crime-type-dropdown-map'' \<notin> set (component_ids page)"
      unfolding ids by simp
    have frame: "view (fire p v s) (''crime-choropleth-map'', ''figure'') =
           view s (''crime-choropleth-map'', ''figure'')"
      if "fst p \<in> set (component_ids page)" and "p \<noteq> (''crime-choropleth-map'', ''figure'')"
      for p v
    proof -
      from that(1) absent have "fst p \<noteq> ''crime-type-dropdown-map''" by auto
      then have "(''crime-choropleth-map'', ''figure'') \<notin>
          set (concat (map Outputs (triggered p :: 'g callback list)))"
        by (rule map_figure_not_triggered)
      with that(2) show ?thesis
        by (intro fire_view) auto
    qed
    from absent app_layout_map_tab [OF page] frame show ?thesis
      unfolding page by simp
  qed
  show "map Inputs (filter (\<lambda>cb. (''crime-choropleth-map'', ''figure'') \<in> set (Outputs cb))
      (callbacks :: 'g callback list)) = [[(''crime-type-dropdown-map'', ''value'')]]"
    by (rule map_figure_callbacks)
qed

theorem map_tab_has_no_selector_witness:
  "(\<exists>page. app_layout (startup [camden_january] ([] :: unit boundary list)) = Inr page \<and>
      ''crime-type-dropdown-stats'' \<in> set (component_ids page) \<and>
      ''crime-type-dropdown-map'' \<notin> set (component_ids page)) \<and>
   (''crime-type-dropdown-stats'', ''value'') \<noteq> (''crime-choropleth-map'', ''figure'') \<and>
   view stats_selection (''crime-choropleth-map'', ''figure'') = None"
proof -
  let ?g = "startup [camden_january] ([] :: unit boundary list)"
  let ?s = "\<lparr>server = ?g, view = Map.empty\<rparr>"
  let ?p = "(''crime-type-dropdown-stats'', ''value'')"
  have "crime_data ?g \<noteq> []"
    by (simp add: startup_crime_data)
  with app_layout_cases [of ?g] obtain page where page: "app_layout ?g = Inr page"
    by blast
  have present: "''crime-type-dropdown-stats'' \<in> set (component_ids page)"
    by (simp add: app_layout_ids [OF page])
  have ne: "?p \<noteq> (''crime-choropleth-map'', ''figure'')"
    by simp
  from map_tab_has_no_selector [of ?g ?s]
  have absent: "''crime-type-dropdown-map'' \<notin> set (component_ids page)"
    and frame: "\<forall>p v. fst p \<in> set (component_ids page) \<and> p \<noteq> (''crime-choropleth-map'', ''figure'') \<longrightarrow>
           view (fire p v ?s) (''crime-choropleth-map'', ''figure'') =
           view ?s (''crime-choropleth-map'', ''figure'')"
    unfolding page by simp_all
  from frame present ne
  have "view (fire ?p (VStr ''Burglary'') ?s) (''crime-choropleth-map'', ''figure'') =
        view ?s (''crime-choropleth-map'', ''figure'')"
    by (metis fst_conv)
  then have unchanged: "view stats_selection (''crime-choropleth-map'', ''figure'') = None"
    by (simp add: stats_selection_def)
  from page present absent ne unchanged show ?thesis
    by blast
qed

section \<open>Which rows each geo merge joins\<close>

lemma merge_set:
  "set (merge left right) = {(l, r). l \<in> set left \<and> r \<in> set right \<and> key r = name l}"
  by (auto simp: merge_def)

lemma merge_map_set:
  "set (merge (map f left) (map h right)) =
     {(f l, h r) | l r. l \<in> set left \<and> r \<in> set right \<and> key (h r) = name (f l)}"
proof (intro set_eqI iffI)
  fix x assume "x \<in> set (merge (map f left) (map h right))"
  then obtain l r where "x = (f l, h r)" and "l \<in> set left" and "r \<in> set right"
    and "key (h r) = name (f l)"
    unfolding merge_set by auto
  then show "x \<in> {(f l, h r) | l r. l \<in> set left \<and> r \<in> set right \<and> key (h r) = name (f l)}"
    by blast
next
  fix x assume "x \<in> {(f l, h r) | l r. l \<in> set left \<and> r \<in> set right \<and> key (h r) = name (f l)}"
  then obtain l r where "x = (f l, h r)" and "l \<in> set left" and "r \<in> set right"
    and "key (h r) = name (f l)"
    by blast
  then show "x \<in> set (merge (map f left) (map h right))"
    unfolding merge_set by auto
qed

text \<open>
  The start-up merge joins a boundary row and a borough aggregate exactly when
  their names agree after \<^verbatim>\<open>strip\<close> and \<^verbatim>\<open>lower\<close>, and the joined rows carry
  the normalized names; every other row of either table is dropped.
\<close>

theorem startup_geo_merge_rows:
  "set (merged_geo_df (startup csv geo)) =
     {(b\<lparr>name := str_lower (str_strip (name b))\<rparr>, a\<lparr>key := str_lower (str_strip (key a))\<rparr>)
        | b a.
          b \<in> set geo \<and>
          a \<in> set (agg_pop_sum_mean Boroughs Population CrimeCount CrimeRatePer1000
                     (map add_season csv)) \<and>
          str_lower (str_strip (name b)) = str_lower (str_strip (key a))}"
  unfolding startup_merged_geo_df startup_geo_df startup_borough_level_data merge_map_set
  by (intro set_eqI iffI; clarsimp; metis)

text \<open>
  The merge of \<open>update_geospatial_map\<close> joins a boundary row and a borough
  aggregate of the selection exactly when the normalized boundary name equals
  the borough name as the crime table has it.
\<close>

theorem callback_geo_merge_rows:
  "\<exists>rows. data_frame (fst (update_geospatial_map (startup csv geo) c)) = Merged rows \<and>
     set rows =
       {(b\<lparr>name := str_lower (str_strip (name b))\<rparr>, a)
          | b a.
            b \<in> set geo \<and>
            a \<in> set (agg_pop_sum_mean Boroughs Population CrimeCount CrimeRatePer1000
                       (select_crime_type (map add_season csv) c)) \<and>
            str_lower (str_strip (name b)) = key a}"
proof -
  let ?agg = "agg_pop_sum_mean Boroughs Population CrimeCount CrimeRatePer1000
                (select_crime_type (map add_season csv) c)"
  have "set (merge (map (\<lambda>b. b\<lparr>name := str_lower (str_strip (name b))\<rparr>) geo) (map id ?agg)) =
       {(b\<lparr>name := str_lower (str_strip (name b))\<rparr>, a)
          | b a. b \<in> set geo \<and> a \<in> set ?agg \<and> str_lower (str_strip (name b)) = key a}"
    unfolding merge_map_set by (intro set_eqI iffI; clarsimp; metis)
  then have "set (merge (map (\<lambda>b. b\<lparr>name := str_lower (str_strip (name b))\<rparr>) geo) ?agg) =
       {(b\<lparr>name := str_lower (str_strip (name b))\<rparr>, a)
          | b a. b \<in> set geo \<and> a \<in> set ?agg \<and> str_lower (str_strip (name b)) = key a}"
    by (simp only: list.map_id)
  then show ?thesis
    unfolding update_geospatial_map_frame startup_geo_df startup_crime_data
    by blast
qed

end
